theory Spec2Isabelle
  imports Complex_Main "HOL-Library.Word" "HOL-Library.Monad_Syntax" "HOL-Library.Log_Nat"
    "HOL-Library.Code_Target_Numeral"
begin

section \<open>Documents and the undo/redo history manager (index.tsx, lines 9-89)\<close>

text \<open>
  The documents kept by the history manager are JavaScript objects. The reducer compares
  them with \<open>===\<close>, which on objects is identity of reference, not equality of content, so
  an object is modelled as its identity together with its content. Objects are never
  mutated in place by the program: every edit builds a new object.
\<close>

datatype 'a obj = Obj (ref: nat) (val: 'a)

record 'a HistoryState =
  past :: "'a obj list"
  present :: "'a obj"
  future :: "'a obj list"

text \<open>
  The action type of the source. \<open>UPDATE_FIELD\<close> carries a field together with its new
  value, as one value of type \<open>'f\<close>; what overwriting that field in a copy of a document
  means is the parameter \<open>spread\<close> of the reducer
  (\<^verbatim>\<open>{ ...present, [action.field]: action.value }\<close>).
\<close>

datatype ('a, 'f) Action = UNDO | REDO | SET "'a obj" | UPDATE_FIELD 'f

text \<open>
  \<open>historyReducer\<close>, case by case as in the source. The argument \<open>new\<close> is the identity
  that the runtime gives to the object literal built in the \<open>UPDATE_FIELD\<close> case; the
  other cases allocate nothing and ignore it. \<open>past.slice(0, past.length - 1)\<close> is
  \<open>butlast\<close>, \<open>past[past.length - 1]\<close> is \<open>last\<close> (both guarded by the emptiness test),
  \<open>future[0]\<close> and \<open>future.slice(1)\<close> are head and tail.
\<close>

fun historyReducer ::
  "('f \<Rightarrow> 'a \<Rightarrow> 'a) \<Rightarrow> nat \<Rightarrow> 'a HistoryState \<Rightarrow> ('a, 'f) Action \<Rightarrow> 'a HistoryState"
where
  "historyReducer spread new state UNDO =
     (if length (past state) = 0 then state
      else \<lparr>past = butlast (past state),
            present = last (past state),
            future = present state # future state\<rparr>)"
| "historyReducer spread new state REDO =
     (case future state of
        [] \<Rightarrow> state
      | f # fs \<Rightarrow> \<lparr>past = past state @ [present state], present = f, future = fs\<rparr>)"
| "historyReducer spread new state (SET payload) =
     (if ref payload = ref (present state) then state
      else \<lparr>past = past state @ [present state], present = payload, future = []\<rparr>)"
| "historyReducer spread new state (UPDATE_FIELD fv) =
     \<lparr>past = past state @ [present state],
      present = Obj new (spread fv (val (present state))),
      future = []\<rparr>"

text \<open>The state \<open>useUndoRedo\<close> starts from, and the two derived flags it returns.\<close>

definition initialHistory :: "'a obj \<Rightarrow> 'a HistoryState" where
  "initialHistory initialState = \<lparr>past = [], present = initialState, future = []\<rparr>"

definition canUndo :: "'a HistoryState \<Rightarrow> bool" where
  "canUndo state = (length (past state) > 0)"

definition canRedo :: "'a HistoryState \<Rightarrow> bool" where
  "canRedo state = (length (future state) > 0)"

text \<open>
  A sequence of dispatched actions, each paired with the identity the runtime would give
  to an object allocated while it is reduced.
\<close>

fun dispatch_all ::
  "('f \<Rightarrow> 'a \<Rightarrow> 'a) \<Rightarrow> 'a HistoryState \<Rightarrow> (nat \<times> ('a, 'f) Action) list \<Rightarrow> 'a HistoryState"
where
  "dispatch_all spread state [] = state"
| "dispatch_all spread state ((new, action) # rest) =
     dispatch_all spread (historyReducer spread new state action) rest"

text \<open>The calls \<open>set\<close> (replace) and \<open>updateField\<close> of the hook, as opposed to undo and redo.\<close>

fun is_edit :: "('a, 'f) Action \<Rightarrow> bool" where
  "is_edit (SET _) = True"
| "is_edit (UPDATE_FIELD _) = True"
| "is_edit _ = False"

text \<open>
  Some call of the sequence adds an entry to the history: an updateField, or a replace
  that is handed another object than the present at that moment (the reducer skips a
  replace by the present object itself).
\<close>

fun some_edit_pushes ::
  "('f \<Rightarrow> 'a \<Rightarrow> 'a) \<Rightarrow> 'a HistoryState \<Rightarrow> (nat \<times> ('a, 'f) Action) list \<Rightarrow> bool"
where
  "some_edit_pushes spread state [] = False"
| "some_edit_pushes spread state ((new, action) # rest) =
     ((case action of
         SET payload \<Rightarrow> ref payload \<noteq> ref (present state)
       | UPDATE_FIELD fv \<Rightarrow> True
       | _ \<Rightarrow> False)
      \<or> some_edit_pushes spread (historyReducer spread new state action) rest)"

text \<open>The documents of a history in timeline order, oldest first.\<close>

definition timeline :: "'a HistoryState \<Rightarrow> 'a obj list" where
  "timeline state = past state @ [present state] @ future state"

subsection \<open>The form document of the application (lines 9-18, 107-116)\<close>

datatype AspectRatio = Wide_16_9 | Tall_9_16

text \<open>
  \<open>null\<close> is \<open>None\<close>. The volume is a JavaScript number; it is only stored and compared
  here, never computed with, and is modelled as a real number.
\<close>

record FormState =
  videoPrompt :: string
  dialogue :: string
  aspectRatio :: AspectRatio
  uploadedImage :: "string option"
  voiceName :: string
  backgroundMusic :: "string option"
  bgMusicName :: "string option"
  bgMusicVolume :: real

text \<open>A field of the form together with a value of the field's declared type.\<close>

datatype FieldValue =
    F_videoPrompt string
  | F_dialogue string
  | F_aspectRatio AspectRatio
  | F_uploadedImage "string option"
  | F_voiceName string
  | F_backgroundMusic "string option"
  | F_bgMusicName "string option"
  | F_bgMusicVolume real

fun spreadForm :: "FieldValue \<Rightarrow> FormState \<Rightarrow> FormState" where
  "spreadForm (F_videoPrompt v) d = d\<lparr>videoPrompt := v\<rparr>"
| "spreadForm (F_dialogue v) d = d\<lparr>dialogue := v\<rparr>"
| "spreadForm (F_aspectRatio v) d = d\<lparr>aspectRatio := v\<rparr>"
| "spreadForm (F_uploadedImage v) d = d\<lparr>uploadedImage := v\<rparr>"
| "spreadForm (F_voiceName v) d = d\<lparr>voiceName := v\<rparr>"
| "spreadForm (F_backgroundMusic v) d = d\<lparr>backgroundMusic := v\<rparr>"
| "spreadForm (F_bgMusicName v) d = d\<lparr>bgMusicName := v\<rparr>"
| "spreadForm (F_bgMusicVolume v) d = d\<lparr>bgMusicVolume := v\<rparr>"

definition initialForm :: FormState where
  "initialForm =
     \<lparr>videoPrompt = '''', dialogue = '''', aspectRatio = Wide_16_9, uploadedImage = None,
      voiceName = ''Kore'', backgroundMusic = None, bgMusicName = None,
      bgMusicVolume = 15 / 100\<rparr>"

definition volume_in_range :: "FormState \<Rightarrow> bool" where
  "volume_in_range d = (0 \<le> bgMusicVolume d \<and> bgMusicVolume d \<le> 1)"

text \<open>An action that brings no volume outside [0,1] into the history by itself.\<close>

fun action_volume_ok :: "(FormState, FieldValue) Action \<Rightarrow> bool" where
  "action_volume_ok (SET payload) = volume_in_range (val payload)"
| "action_volume_ok (UPDATE_FIELD (F_bgMusicVolume v)) = (0 \<le> v \<and> v \<le> 1)"
| "action_volume_ok _ = True"

definition history_volumes_ok :: "FormState HistoryState \<Rightarrow> bool" where
  "history_volumes_ok state =
     list_all (\<lambda>d. volume_in_range (val d)) (past state @ [present state] @ future state)"

subsection \<open>The edit operations of the application (lines 118-144, 172-204, 255-260, 506-653)\<close>

text \<open>
  The component calls the four operations of the hook at fixed places. \<open>rendered\<close> keeps
  the documents the component has rendered, the newest first: a handler reads
  \<open>formState\<close> from the render that created it, and the handler of a finished music
  upload may come from an earlier render than the last. \<open>next_ref\<close> is the identity of
  the next object to be allocated; every payload of \<open>setFormState\<close> is a new object.
\<close>

record AppHistory =
  hist :: "FormState HistoryState"
  rendered :: "FormState list"
  next_ref :: nat

text \<open>
  What happens in the page, one constructor per call site: typing in the prompt (line
  533), choosing the aspect ratio (546), a finished image upload (177), typing in the
  dialogue (596), a transcription that arrived (257-259), choosing the voice (606), a
  finished music upload whose handler was created some renders ago (188-192), removing
  the music (199-203), moving the volume control to a value (651), undo and redo
  (buttons and keyboard shortcuts).
\<close>

datatype AppEdit =
    PromptChanged string
  | AspectRatioPicked AspectRatio
  | ImageLoaded string
  | DialogueChanged string
  | Transcribed string
  | VoicePicked string
  | MusicLoaded nat string string
  | MusicRemoved
  | VolumeSlid real
  | UndoPressed
  | RedoPressed

definition app_dispatch :: "AppHistory \<Rightarrow> (FormState, FieldValue) Action \<Rightarrow> AppHistory" where
  "app_dispatch a action =
     (let h = historyReducer spreadForm (next_ref a) (hist a) action in
      \<lparr>hist = h, rendered = val (present h) # rendered a, next_ref = Suc (next_ref a)\<rparr>)"

definition formState_of :: "AppHistory \<Rightarrow> FormState" where
  "formState_of a = val (present (hist a))"

fun appEdit :: "AppHistory \<Rightarrow> AppEdit \<Rightarrow> AppHistory" where
  "appEdit a (PromptChanged v) = app_dispatch a (UPDATE_FIELD (F_videoPrompt v))"
| "appEdit a (AspectRatioPicked ratio) = app_dispatch a (UPDATE_FIELD (F_aspectRatio ratio))"
| "appEdit a (ImageLoaded result) = app_dispatch a (UPDATE_FIELD (F_uploadedImage (Some result)))"
| "appEdit a (DialogueChanged v) = app_dispatch a (UPDATE_FIELD (F_dialogue v))"
| "appEdit a (Transcribed transcript) =
     (if transcript \<noteq> [] then
        (let currentDialogue = dialogue (formState_of a);
             newDialogue = (if currentDialogue \<noteq> []
                            then currentDialogue @ '' '' @ transcript else transcript) in
         app_dispatch a (UPDATE_FIELD (F_dialogue newDialogue)))
      else a)"
| "appEdit a (VoicePicked v) = app_dispatch a (UPDATE_FIELD (F_voiceName v))"
| "appEdit a (MusicLoaded age result name) =
     (let captured = rendered a ! min age (length (rendered a) - 1) in
      app_dispatch a
        (SET (Obj (next_ref a)
                (captured\<lparr>backgroundMusic := Some result, bgMusicName := Some name\<rparr>))))"
| "appEdit a MusicRemoved =
     app_dispatch a
       (SET (Obj (next_ref a)
               ((formState_of a)\<lparr>backgroundMusic := None, bgMusicName := None\<rparr>)))"
| "appEdit a (VolumeSlid v) = app_dispatch a (UPDATE_FIELD (F_bgMusicVolume v))"
| "appEdit a UndoPressed = app_dispatch a UNDO"
| "appEdit a RedoPressed = app_dispatch a REDO"

text \<open>
  The volume control is a range input with \<open>min="0"\<close> and \<open>max="1"\<close> (lines 645-653):
  the value it reports lies between the two.
\<close>

fun within_range_control :: "AppEdit \<Rightarrow> bool" where
  "within_range_control (VolumeSlid v) = (0 \<le> v \<and> v \<le> 1)"
| "within_range_control _ = True"

definition appStart :: AppHistory where
  "appStart = \<lparr>hist = initialHistory (Obj 0 initialForm), rendered = [initialForm], next_ref = 1\<rparr>"

fun appRun :: "AppHistory \<Rightarrow> AppEdit list \<Rightarrow> AppHistory" where
  "appRun a [] = a"
| "appRun a (e # es) = appRun (appEdit a e) es"

definition app_volumes_ok :: "AppHistory \<Rightarrow> bool" where
  "app_volumes_ok a =
     (history_volumes_ok (hist a) \<and> rendered a \<noteq> [] \<and> list_all volume_in_range (rendered a))"

section \<open>The audio container encoder (lines 372-401)\<close>

type_synonym byte = "8 word"

subsection \<open>Numbers\<close>

text \<open>
  The sample rate and the channel count are JavaScript numbers: IEEE 754 double precision
  values. A finite number is kept as a mantissa and a binary exponent, \<open>Finite m e\<close>
  standing for m times 2 to the power e. \<open>NaN\<close> and the two infinities are the one value
  \<open>NotFinite\<close>: a product or sum with one of them is again one of them, and the integer
  conversions below send all three to 0. Negative zero is not told apart from zero, which
  the same conversions send to 0 as well.
\<close>

datatype number = Finite int int | NotFinite

definition number_of_nat :: "nat \<Rightarrow> number" where
  "number_of_nat n = Finite (int n) 0"

text \<open>
  Dropping the low \<open>s\<close> bits of a non-negative integer, to the nearest, a tie going to
  the even neighbour.
\<close>

definition half_even_shift :: "int \<Rightarrow> nat \<Rightarrow> int" where
  "half_even_shift a s =
     (let q = a div 2 ^ s; r = a mod 2 ^ s in
      if 2 * r > 2 ^ s \<or> (2 * r = 2 ^ s \<and> odd q) then q + 1 else q)"

text \<open>
  The double nearest to M times 2 to the power E. A double has 53 significant bits and no
  bit below 2 to the power -1074; a result of magnitude 2 to the power 1024 or more is an
  infinity.
\<close>

definition round_double :: "int \<Rightarrow> int \<Rightarrow> number" where
  "round_double M E =
     (if M = 0 then Finite 0 0
      else
        (let qe = max (bitlen \<bar>M\<bar> + E - 53) (- 1074);
             m = (if qe \<le> E then \<bar>M\<bar> else half_even_shift \<bar>M\<bar> (nat (qe - E)));
             e = (if qe \<le> E then E else qe) in
         if bitlen m + e > 1024 then NotFinite else Finite (sgn M * m) e))"

text \<open>The operators \<open>*\<close> and \<open>+\<close> on numbers: the exact result, rounded.\<close>

fun times_number :: "number \<Rightarrow> number \<Rightarrow> number" where
  "times_number (Finite m1 e1) (Finite m2 e2) = round_double (m1 * m2) (e1 + e2)"
| "times_number _ _ = NotFinite"

fun plus_number :: "number \<Rightarrow> number \<Rightarrow> number" where
  "plus_number (Finite m1 e1) (Finite m2 e2) =
     (let e = min e1 e2 in
      round_double (m1 * 2 ^ nat (e1 - e) + m2 * 2 ^ nat (e2 - e)) e)"
| "plus_number _ _ = NotFinite"

text \<open>
  The conversions \<open>ToUint8\<close>, \<open>ToUint16\<close> and \<open>ToUint32\<close> of the language, which the
  setters of a \<open>DataView\<close> apply to the value they are given: 0 for a number that is not
  finite, else the number truncated towards zero, modulo 2 to the number of bits.
\<close>

definition truncate_number :: "int \<Rightarrow> int \<Rightarrow> int" where
  "truncate_number m e =
     (if 0 \<le> e then m * 2 ^ nat e else sgn m * (\<bar>m\<bar> div 2 ^ nat (- e)))"

fun ToUint :: "nat \<Rightarrow> number \<Rightarrow> nat" where
  "ToUint bits NotFinite = 0"
| "ToUint bits (Finite m e) = nat (truncate_number m e mod 2 ^ bits)"

subsection \<open>The view and the encoder\<close>

text \<open>
  A \<open>DataView\<close> over a buffer is the list of the buffer's bytes. Its setters throw a
  \<open>RangeError\<close> when the write would pass the end of the buffer: that is \<open>None\<close>.
\<close>

definition setUint8 :: "byte list \<Rightarrow> nat \<Rightarrow> number \<Rightarrow> byte list option" where
  "setUint8 view byteOffset v =
     (if byteOffset + 1 \<le> length view
      then Some (view[byteOffset := of_nat (ToUint 8 v)]) else None)"

definition setUint16 :: "byte list \<Rightarrow> nat \<Rightarrow> number \<Rightarrow> bool \<Rightarrow> byte list option" where
  "setUint16 view byteOffset v littleEndian =
     (if byteOffset + 2 \<le> length view then
        (let w = ToUint 16 v; b0 = of_nat w; b1 = of_nat (w div 256) in
         Some (if littleEndian
               then view[byteOffset := b0, byteOffset + 1 := b1]
               else view[byteOffset := b1, byteOffset + 1 := b0]))
      else None)"

definition setUint32 :: "byte list \<Rightarrow> nat \<Rightarrow> number \<Rightarrow> bool \<Rightarrow> byte list option" where
  "setUint32 view byteOffset v littleEndian =
     (if byteOffset + 4 \<le> length view then
        (let w = ToUint 32 v;
             b0 = of_nat w; b1 = of_nat (w div 256);
             b2 = of_nat (w div 65536); b3 = of_nat (w div 16777216) in
         Some (if littleEndian
               then view[byteOffset := b0, byteOffset + 1 := b1,
                         byteOffset + 2 := b2, byteOffset + 3 := b3]
               else view[byteOffset := b3, byteOffset + 1 := b2,
                         byteOffset + 2 := b1, byteOffset + 3 := b0]))
      else None)"

text \<open>
  The local helper \<open>writeString\<close>: one \<open>setUint8\<close> per character code, left to right.
\<close>

fun writeString :: "byte list \<Rightarrow> nat \<Rightarrow> string \<Rightarrow> byte list option" where
  "writeString view offset [] = Some view"
| "writeString view offset (c # cs) =
     do { view' \<leftarrow> setUint8 view offset (number_of_nat (of_char c));
          writeString view' (Suc offset) cs }"

text \<open>
  \<open>Uint8Array.prototype.set(source, offset)\<close>: copies the source into the target at the
  offset, and throws a \<open>RangeError\<close> when it does not fit.
\<close>

definition set_array :: "byte list \<Rightarrow> byte list \<Rightarrow> nat \<Rightarrow> byte list option" where
  "set_array target source offset =
     (if offset + length source \<le> length target
      then Some (take offset target @ source @ drop (offset + length source) target)
      else None)"

text \<open>
  \<open>samples.length\<close> is the number \<open>number_of_nat (length samples)\<close>: a typed array
  is shorter than 2 to the power 53, so its length is a number exactly. The literals are
  numbers too. The buffer is allocated with 44 more bytes than the samples.
\<close>

definition addWavHeader :: "byte list \<Rightarrow> number \<Rightarrow> number \<Rightarrow> byte list option" where
  "addWavHeader samples sampleRate numChannels =
     do { let buffer = replicate (44 + length samples) (0 :: byte);
          view \<leftarrow> writeString buffer 0 ''RIFF'';
          view \<leftarrow> setUint32 view 4
                    (plus_number (number_of_nat 36) (number_of_nat (length samples))) True;
          view \<leftarrow> writeString view 8 ''WAVE'';
          view \<leftarrow> writeString view 12 ''fmt '';
          view \<leftarrow> setUint32 view 16 (number_of_nat 16) True;
          view \<leftarrow> setUint16 view 20 (number_of_nat 1) True;
          view \<leftarrow> setUint16 view 22 numChannels True;
          view \<leftarrow> setUint32 view 24 sampleRate True;
          view \<leftarrow> setUint32 view 28
                    (times_number (times_number sampleRate numChannels) (number_of_nat 2)) True;
          view \<leftarrow> setUint16 view 32 (times_number numChannels (number_of_nat 2)) True;
          view \<leftarrow> setUint16 view 34 (number_of_nat 16) True;
          view \<leftarrow> writeString view 36 ''data'';
          view \<leftarrow> setUint32 view 40 (number_of_nat (length samples)) True;
          set_array view samples 44 }"

text \<open>
  Reading the result back, to state what it holds: the little-endian 16-bit and 32-bit
  fields at an offset, and the bytes of an ASCII tag.
\<close>

definition field16 :: "byte list \<Rightarrow> nat \<Rightarrow> nat" where
  "field16 bytes off = unat (bytes ! off) + 256 * unat (bytes ! (off + 1))"

definition field32 :: "byte list \<Rightarrow> nat \<Rightarrow> nat" where
  "field32 bytes off =
     unat (bytes ! off) + 256 * unat (bytes ! (off + 1))
     + 65536 * unat (bytes ! (off + 2)) + 16777216 * unat (bytes ! (off + 3))"

definition tag :: "string \<Rightarrow> byte list" where
  "tag s = map of_char s"

definition bytes_at :: "byte list \<Rightarrow> nat \<Rightarrow> nat \<Rightarrow> byte list" where
  "bytes_at bytes off n = take n (drop off bytes)"

text \<open>The byte-rate field of the header, at offset 28.\<close>

definition byteRateField :: "byte list \<Rightarrow> nat" where
  "byteRateField bytes = field32 bytes 28"

section \<open>The scene generation pipeline (lines 269-370)\<close>

text \<open>
  What is thrown and caught in \<open>generateScene\<close> is an error object with a message.
\<close>

datatype Error = Error (message: string)

text \<open>
  The long-running operation of the video service, reduced to what the pipeline reads:
  \<open>operation.done\<close> and \<open>operation.response?.generatedVideos?.[0]?.video?.uri\<close>
  (\<open>None\<close> when any link of that chain is missing).
\<close>

record Operation =
  op_done :: bool
  op_uri :: "string option"

record VideoRequest =
  req_model :: string
  req_prompt :: string
  req_image :: "(string option \<times> string option) option"
  req_numberOfVideos :: nat
  req_resolution :: string
  req_aspectRatio :: AspectRatio

text \<open>
  The effects of a run that leave the function, in the order they happen: the remote
  calls, the waits of the poll loop (in milliseconds) and the console log.
\<close>

datatype Event =
    GenerateContentCall string string
  | GenerateVideosCall VideoRequest
  | SetTimeout nat
  | GetVideosOperationCall Operation
  | FetchCall string
  | ConsoleError Error

text \<open>
  The collaborators the pipeline calls, as functions that answer or throw (\<open>Inl\<close>):
  the speech call answers with the inline audio data of the first part, if there is one;
  the reply of the status query may depend on how many queries came before;
  \<open>fetch\<close> stands for the request and the reading of its body.
\<close>

record Services =
  generateContent :: "string \<Rightarrow> string \<Rightarrow> Error + string option"
  atob :: "string \<Rightarrow> Error + string"
  createObjectURL :: "byte list \<Rightarrow> string"
  generateVideos :: "VideoRequest \<Rightarrow> Error + Operation"
  getVideosOperation :: "nat \<Rightarrow> Operation \<Rightarrow> Error + Operation"
  fetch :: "string \<Rightarrow> Error + byte list"
  API_KEY :: string

text \<open>
  The component state the pipeline writes (\<open>useState\<close> cells), and the log of effects.
\<close>

record App =
  status :: string
  loading :: bool
  videoUri :: "string option"
  audioUri :: "string option"
  effects :: "Event list"

definition setStatus :: "string \<Rightarrow> App \<Rightarrow> App" where
  "setStatus s st = st\<lparr>status := s\<rparr>"

definition emit :: "Event \<Rightarrow> App \<Rightarrow> App" where
  "emit ev st = st\<lparr>effects := effects st @ [ev]\<rparr>"

text \<open>Truthiness of a string that may be \<open>null\<close> or \<open>undefined\<close>: present and not empty.\<close>

fun truthy :: "string option \<Rightarrow> bool" where
  "truthy None = False"
| "truthy (Some s) = (s \<noteq> [])"

text \<open>\<open>String.prototype.split\<close> with a one-character separator, and indexing its result.\<close>

fun js_split :: "char \<Rightarrow> string \<Rightarrow> string list" where
  "js_split sep [] = [Nil]"
| "js_split sep (c # cs) =
     (if c = sep then [] # js_split sep cs
      else (case js_split sep cs of [] \<Rightarrow> [c] # Nil | p # ps \<Rightarrow> (c # p) # ps))"

definition at_index :: "'a list \<Rightarrow> nat \<Rightarrow> 'a option" where
  "at_index xs i = (if i < length xs then Some (xs ! i) else None)"

text \<open>
  Stage 1 of the \<open>try\<close> block (lines 284-313). The result is the state reached and the
  error thrown on the way, if any.
\<close>

definition generateAudio :: "Services \<Rightarrow> FormState \<Rightarrow> App \<Rightarrow> Error option \<times> App" where
  "generateAudio env formState st =
     (if dialogue formState \<noteq> [] then
        (let st1 = emit (GenerateContentCall (dialogue formState) (voiceName formState))
                     (setStatus ''Generating voiceover...'' st) in
         case generateContent env (dialogue formState) (voiceName formState) of
           Inl e \<Rightarrow> (Some e, st1)
         | Inr audioData \<Rightarrow>
             (if truthy audioData then
                (case atob env (the audioData) of
                   Inl e \<Rightarrow> (Some e, st1)
                 | Inr binaryString \<Rightarrow>
                     (case addWavHeader (map of_char binaryString)
                             (number_of_nat 24000) (number_of_nat 1) of
                        None \<Rightarrow> (Some (Error ''RangeError''), st1)
                      | Some wavBytes \<Rightarrow>
                          (None, st1\<lparr>audioUri := Some (createObjectURL env wavBytes)\<rparr>)))
              else (None, st1)))
      else (None, st))"

text \<open>The request of stage 2 (lines 318-343).\<close>

definition videoRequest :: "FormState \<Rightarrow> VideoRequest" where
  "videoRequest formState =
     (if truthy (uploadedImage formState) then
        (let img = the (uploadedImage formState);
             base64Image = at_index (js_split CHR '','' img) 1;
             mimeType = at_index (js_split CHR '':'' (hd (js_split CHR '';'' img))) 1 in
         \<lparr>req_model = ''veo-3.1-fast-generate-preview'',
          req_prompt = (if videoPrompt formState \<noteq> [] then videoPrompt formState
                        else ''Animate this image''),
          req_image = Some (base64Image, mimeType),
          req_numberOfVideos = 1, req_resolution = ''1080p'',
          req_aspectRatio = aspectRatio formState\<rparr>)
      else
        \<lparr>req_model = ''veo-3.1-fast-generate-preview'',
         req_prompt = videoPrompt formState,
         req_image = None,
         req_numberOfVideos = 1, req_resolution = ''1080p'',
         req_aspectRatio = aspectRatio formState\<rparr>)"

text \<open>
  The poll loop (lines 346-350). It has no bound: when the service never reports the
  operation done, the loop never ends, and the function has no value (\<open>None\<close>).
  \<open>k\<close> counts the status queries made so far.
\<close>

partial_function (option) pollOperation ::
  "Services \<Rightarrow> nat \<Rightarrow> Operation \<Rightarrow> App \<Rightarrow> ((Error + Operation) \<times> App) option"
where
  "pollOperation env k operation st =
     (if \<not> op_done operation then
        (case getVideosOperation env k operation of
           Inl e \<Rightarrow>
             Some (Inl e, emit (GetVideosOperationCall operation) (emit (SetTimeout 5000) st))
         | Inr operation' \<Rightarrow>
             pollOperation env (Suc k) operation'
               (setStatus ''Veo is thinking...''
                  (emit (GetVideosOperationCall operation) (emit (SetTimeout 5000) st))))
      else Some (Inr operation, st))"

text \<open>After the loop (lines 352-362).\<close>

definition fetchVideo :: "Services \<Rightarrow> Operation \<Rightarrow> App \<Rightarrow> Error option \<times> App" where
  "fetchVideo env operation st =
     (if truthy (op_uri operation) then
        (let url = the (op_uri operation) @ ''&key='' @ API_KEY env;
             st1 = emit (FetchCall url) st in
         case fetch env url of
           Inl e \<Rightarrow> (Some e, st1)
         | Inr vidBlob \<Rightarrow>
             (None, setStatus ''Scene generation complete!''
                      (st1\<lparr>videoUri := Some (createObjectURL env vidBlob)\<rparr>)))
      else (Some (Error ''No video returned''), st))"

text \<open>The body of the \<open>try\<close> block: stage 1, then stage 2.\<close>

definition tryBlock :: "Services \<Rightarrow> FormState \<Rightarrow> App \<Rightarrow> (Error option \<times> App) option" where
  "tryBlock env formState st =
     (case generateAudio env formState st of
        (Some e, st1) \<Rightarrow> Some (Some e, st1)
      | (None, st1) \<Rightarrow>
          (let st2 = emit (GenerateVideosCall (videoRequest formState))
                       (setStatus ''Generating video with Veo (this may take a minute)...'' st1) in
           case generateVideos env (videoRequest formState) of
             Inl e \<Rightarrow> Some (Some e, st2)
           | Inr operation \<Rightarrow>
               (case pollOperation env 0 operation st2 of
                  None \<Rightarrow> None
                | Some (Inl e, st3) \<Rightarrow> Some (Some e, st3)
                | Some (Inr operation', st3) \<Rightarrow> Some (fetchVideo env operation' st3))))"

text \<open>The \<open>catch\<close> and \<open>finally\<close> clauses (lines 364-369).\<close>

definition catchFinally :: "Error option \<times> App \<Rightarrow> App" where
  "catchFinally r =
     (case r of
        (None, st) \<Rightarrow> st\<lparr>loading := False\<rparr>
      | (Some error, st) \<Rightarrow>
          (setStatus (''Error: '' @ (if message error \<noteq> [] then message error
                                     else ''Unknown error occurred''))
             (emit (ConsoleError error) st))\<lparr>loading := False\<rparr>)"

definition generateScene :: "Services \<Rightarrow> FormState \<Rightarrow> App \<Rightarrow> App option" where
  "generateScene env formState st =
     (if videoPrompt formState = [] \<and> \<not> truthy (uploadedImage formState) then
        Some (setStatus ''Please provide a video prompt or an image.'' st)
      else
        map_option catchFinally
          (tryBlock env formState (st\<lparr>loading := True, videoUri := None, audioUri := None\<rparr>)))"

text \<open>What a run added to the log of effects, and how to read it.\<close>

definition run_effects :: "App \<Rightarrow> App \<Rightarrow> Event list" where
  "run_effects st st' = drop (length (effects st)) (effects st')"

fun is_remote_call :: "Event \<Rightarrow> bool" where
  "is_remote_call (GenerateContentCall _ _) = True"
| "is_remote_call (GenerateVideosCall _) = True"
| "is_remote_call (GetVideosOperationCall _) = True"
| "is_remote_call (FetchCall _) = True"
| "is_remote_call _ = False"

fun is_fetch :: "Event \<Rightarrow> bool" where
  "is_fetch (FetchCall _) = True"
| "is_fetch _ = False"

fun is_video_attempt :: "Event \<Rightarrow> bool" where
  "is_video_attempt (GenerateVideosCall _) = True"
| "is_video_attempt _ = False"

definition waits_before_fetch :: "Event list \<Rightarrow> nat" where
  "waits_before_fetch evs =
     length (filter (\<lambda>ev. ev = SetTimeout 5000) (takeWhile (\<lambda>ev. \<not> is_fetch ev) evs))"

section \<open>Example inputs\<close>

text \<open>The sequence as written with the redo list reversed, to compare with \<open>timeline\<close>.\<close>

definition timeline_rev_future :: "'a HistoryState \<Rightarrow> 'a obj list" where
  "timeline_rev_future state = past state @ [present state] @ rev (future state)"

text \<open>The history at application start: the default form, as object number 0.\<close>

definition startHistory :: "FormState HistoryState" where
  "startHistory = initialHistory (Obj 0 initialForm)"

text \<open>Two edits of the prompt, then one undo: one document is waiting in \<open>future\<close>.\<close>

definition twoEditsOneUndo :: "FormState HistoryState" where
  "twoEditsOneUndo =
     dispatch_all spreadForm startHistory
       [(1, UPDATE_FIELD (F_videoPrompt ''a'')),
        (2, UPDATE_FIELD (F_videoPrompt ''ab'')),
        (3, UNDO)]"

text \<open>An edit of a field, then a replace that is handed the present object.\<close>

definition updateThenReplaceSame :: "(nat \<times> (FormState, FieldValue) Action) list" where
  "updateThenReplaceSame =
     [(1, UPDATE_FIELD (F_videoPrompt ''a'')),
      (2, SET (Obj 1 (initialForm\<lparr>videoPrompt := ''a''\<rparr>)))]"

text \<open>A session at the page, with a music upload started one render before it finished.\<close>

definition sessionEdits :: "AppEdit list" where
  "sessionEdits =
     [VolumeSlid (1 / 2), PromptChanged ''a cat'',
      MusicLoaded 1 ''data:audio/mpeg;base64,AAAA'' ''song.mp3'',
      UndoPressed, RedoPressed, MusicRemoved, VolumeSlid 1]"

text \<open>
  A component state before any run, and services for the scenarios below: the video
  operation is pending when submitted, and the status query answers not-done twice and
  then done with a locator.
\<close>

definition idleApp :: App where
  "idleApp = \<lparr>status = '''', loading = False, videoUri = None, audioUri = None, effects = []\<rparr>"

definition pendingOp :: Operation where
  "pendingOp = \<lparr>op_done = False, op_uri = None\<rparr>"

definition doneOp :: Operation where
  "doneOp = \<lparr>op_done = True, op_uri = Some ''https://video.example/1?alt=media''\<rparr>"

definition emptyOp :: Operation where
  "emptyOp = \<lparr>op_done = True, op_uri = None\<rparr>"

definition pollTwiceServices :: Services where
  "pollTwiceServices =
     \<lparr>generateContent = (\<lambda>text voice. Inr (Some ''UklGRg=='')),
      atob = (\<lambda>s. Inr ''RIFF''),
      createObjectURL = (\<lambda>blob. if length blob < 44 then ''blob:video'' else ''blob:audio''),
      generateVideos = (\<lambda>request. Inr pendingOp),
      getVideosOperation = (\<lambda>k operation. Inr (if k < 2 then pendingOp else doneOp)),
      fetch = (\<lambda>url. Inr [1, 2, 3]),
      API_KEY = ''KEY''\<rparr>"

text \<open>The same services with a speech call that throws.\<close>

definition speechDownServices :: Services where
  "speechDownServices =
     pollTwiceServices\<lparr>generateContent := (\<lambda>text voice. Inl (Error ''speech service unavailable''))\<rparr>"

text \<open>The same services with an operation that completes without a video.\<close>

definition noVideoServices :: Services where
  "noVideoServices = pollTwiceServices\<lparr>getVideosOperation := (\<lambda>k operation. Inr emptyOp)\<rparr>"

definition promptForm :: FormState where
  "promptForm = initialForm\<lparr>videoPrompt := ''a cat''\<rparr>"

definition talkForm :: FormState where
  "talkForm = initialForm\<lparr>videoPrompt := ''a cat'', dialogue := ''Hello world''\<rparr>"

definition dialogueOnlyForm :: FormState where
  "dialogueOnlyForm = initialForm\<lparr>dialogue := ''Hello world''\<rparr>"

text \<open>The operations seen in the two scenarios, by number of status queries made.\<close>

definition pollTwiceOps :: "nat \<Rightarrow> Operation" where
  "pollTwiceOps i = (if i < 3 then pendingOp else doneOp)"

definition noVideoOps :: "nat \<Rightarrow> Operation" where
  "noVideoOps i = (if i < 1 then pendingOp else emptyOp)"

section \<open>Properties of the history manager\<close>

lemma edits_keep_origin:
  "list_all (\<lambda>(n, a). is_edit a) evs \<Longrightarrow>
   hd (past (dispatch_all sp s evs) @ [present (dispatch_all sp s evs)]) = hd (past s @ [present s])
   \<and> length (past (dispatch_all sp s evs)) \<le> length (past s) + length evs"
proof (induction evs arbitrary: s)
  case Nil
  then show ?case by simp
next
  case (Cons ev evs)
  obtain n a where ev: "ev = (n, a)" by (cases ev)
  from Cons.prems ev have a: "is_edit a" and rest: "list_all (\<lambda>(n, a). is_edit a) evs"
    by simp_all
  let ?s1 = "historyReducer sp n s a"
  have step: "hd (past ?s1 @ [present ?s1]) = hd (past s @ [present s])
      \<and> length (past ?s1) \<le> Suc (length (past s))"
    using a by (cases a) (auto simp: hd_append)
  from Cons.IH [OF rest, of ?s1] step show ?case
    by (simp add: ev)
qed

lemma pushes_iff_past:
  "list_all (\<lambda>(n, a). is_edit a) evs \<Longrightarrow>
   (past (dispatch_all sp s evs) \<noteq> []) = (past s \<noteq> [] \<or> some_edit_pushes sp s evs)"
proof (induction evs arbitrary: s)
  case Nil
  then show ?case by simp
next
  case (Cons ev evs)
  obtain n a where ev: "ev = (n, a)" by (cases ev)
  from Cons.prems ev have a: "is_edit a" and rest: "list_all (\<lambda>(n, a). is_edit a) evs"
    by simp_all
  note ih = Cons.IH [OF rest, of "historyReducer sp n s a"]
  show ?case
  proof (cases a)
    case (SET payload)
    with ih show ?thesis by (auto simp: ev)
  next
    case (UPDATE_FIELD fv)
    with ih show ?thesis by (simp add: ev)
  qed (use a in simp_all)
qed

lemma undos_reach_origin:
  "length (past s) \<le> k \<Longrightarrow>
   past (dispatch_all sp s (replicate k (m, UNDO))) = []
   \<and> present (dispatch_all sp s (replicate k (m, UNDO))) = hd (past s @ [present s])"
proof (induction k arbitrary: s)
  case 0
  then show ?case by simp
next
  case (Suc k)
  show ?case
  proof (cases "past s = []")
    case True
    with Suc.IH [of s] show ?thesis by simp
  next
    case False
    let ?s1 = "\<lparr>past = butlast (past s), present = last (past s), future = present s # future s\<rparr>"
    from False Suc.prems have "length (past ?s1) \<le> k" by simp
    from Suc.IH [OF this] False show ?thesis
      by (simp add: hd_append)
  qed
qed

text \<open>
  Claim C2, as the code has it. After any sequence of N replace/updateField calls from the
  initial history, canUndo is true exactly when some call of the sequence added an entry,
  that is, unless every call was a replace handed the object that was the present at that
  moment; and N undo calls bring the present back to the initial document and leave
  canUndo false.
\<close>

theorem edits_then_undos:
  assumes "list_all (\<lambda>(n, a). is_edit a) evs"
  shows "canUndo (dispatch_all sp (initialHistory d) evs)
           = some_edit_pushes sp (initialHistory d) evs
       \<and> present (dispatch_all sp (dispatch_all sp (initialHistory d) evs)
                    (replicate (length evs) (m, UNDO))) = d
       \<and> \<not> canUndo (dispatch_all sp (dispatch_all sp (initialHistory d) evs)
                    (replicate (length evs) (m, UNDO)))"
proof -
  let ?s = "dispatch_all sp (initialHistory d) evs"
  from edits_keep_origin [OF assms, of sp "initialHistory d"]
  have o: "hd (past ?s @ [present ?s]) = d" and l: "length (past ?s) \<le> length evs"
    by (simp_all add: initialHistory_def)
  from undos_reach_origin [OF l, of sp m] o
  have 1: "present (dispatch_all sp ?s (replicate (length evs) (m, UNDO))) = d"
    and 2: "\<not> canUndo (dispatch_all sp ?s (replicate (length evs) (m, UNDO)))"
    by (simp_all add: canUndo_def)
  from pushes_iff_past [OF assms, of sp "initialHistory d"]
  have 3: "canUndo ?s = some_edit_pushes sp (initialHistory d) evs"
    by (simp add: canUndo_def initialHistory_def)
  from 1 2 3 show ?thesis by simp
qed

theorem edits_then_undos_witness:
  "list_all (\<lambda>(n, a). is_edit a) updateThenReplaceSame
   \<and> length updateThenReplaceSame = 2
   \<and> some_edit_pushes spreadForm startHistory updateThenReplaceSame
   \<and> canUndo (dispatch_all spreadForm startHistory updateThenReplaceSame)
   \<and> present (dispatch_all spreadForm
                (dispatch_all spreadForm startHistory updateThenReplaceSame)
                (replicate 2 (0, UNDO))) = Obj 0 initialForm
   \<and> \<not> canUndo (dispatch_all spreadForm
                (dispatch_all spreadForm startHistory updateThenReplaceSame)
                (replicate 2 (0, UNDO)))"
proof -
  have e: "list_all (\<lambda>(n, a). is_edit a) updateThenReplaceSame"
    by (simp add: updateThenReplaceSame_def)
  have p: "some_edit_pushes spreadForm startHistory updateThenReplaceSame"
    by (simp add: updateThenReplaceSame_def)
  have l: "length updateThenReplaceSame = 2"
    by (simp add: updateThenReplaceSame_def)
  from edits_then_undos [OF e, of spreadForm "Obj 0 initialForm" 0] e p l
  show ?thesis by (simp add: startHistory_def)
qed

text \<open>
  Claim C2 as stated fails: one replace call that passes the current present object is
  N = 1 call, and canUndo is false after it.
\<close>

theorem replace_of_present_leaves_canUndo_false:
  "\<not> canUndo (dispatch_all spreadForm startHistory [(1, SET (Obj 0 initialForm))])"
  by (simp add: canUndo_def startHistory_def initialHistory_def)

text \<open>
  Claim C3. A replace whose argument is reference-equal to the current present returns
  the history unchanged. An updateField always appends the current present to past,
  empties future and makes the copy with the field overwritten the new present, whatever
  the value is, also when it is the value the field already has.
\<close>

theorem replace_short_circuits_updateField_does_not:
  "(ref x = ref (present s) \<longrightarrow> historyReducer sp n s (SET x) = s)
   \<and> past (historyReducer sp n s (UPDATE_FIELD fv)) = past s @ [present s]
   \<and> future (historyReducer sp n s (UPDATE_FIELD fv)) = []
   \<and> val (present (historyReducer sp n s (UPDATE_FIELD fv))) = sp fv (val (present s))"
  by simp

theorem replace_short_circuits_updateField_does_not_witness:
  "ref (Obj 0 initialForm) = ref (present startHistory)
   \<and> historyReducer spreadForm 1 startHistory (SET (Obj 0 initialForm)) = startHistory
   \<and> spreadForm (F_voiceName ''Kore'') (val (present startHistory)) = val (present startHistory)
   \<and> past (historyReducer spreadForm 1 startHistory (UPDATE_FIELD (F_voiceName ''Kore'')))
       = [Obj 0 initialForm]
   \<and> future (historyReducer spreadForm 1 startHistory (UPDATE_FIELD (F_voiceName ''Kore''))) = []"
  using replace_short_circuits_updateField_does_not
          [of "Obj 0 initialForm" startHistory spreadForm 1 "F_voiceName ''Kore''"]
  by (simp add: startHistory_def initialHistory_def initialForm_def)

text \<open>
  Claim C4. When past is not empty, redo right after undo gives back the history as it
  was, so the present is again the value the undo removed. In every history, an
  updateField issued after an undo leaves future empty, and a redo after it changes
  nothing.
\<close>

theorem redo_after_undo_and_edit_clears_redo:
  "(past s \<noteq> [] \<longrightarrow> historyReducer sp n2 (historyReducer sp n1 s UNDO) REDO = s)
   \<and> future (historyReducer sp n2 (historyReducer sp n1 s UNDO) (UPDATE_FIELD fv)) = []
   \<and> historyReducer sp n3
        (historyReducer sp n2 (historyReducer sp n1 s UNDO) (UPDATE_FIELD fv)) REDO
       = historyReducer sp n2 (historyReducer sp n1 s UNDO) (UPDATE_FIELD fv)"
  by simp

theorem redo_after_undo_and_edit_clears_redo_witness:
  "past twoEditsOneUndo \<noteq> []
   \<and> historyReducer spreadForm 5 (historyReducer spreadForm 4 twoEditsOneUndo UNDO) REDO
       = twoEditsOneUndo
   \<and> present twoEditsOneUndo = Obj 1 (initialForm\<lparr>videoPrompt := ''a''\<rparr>)
   \<and> future twoEditsOneUndo \<noteq> []
   \<and> future (historyReducer spreadForm 5 (historyReducer spreadForm 4 twoEditsOneUndo UNDO)
               (UPDATE_FIELD (F_dialogue ''hi''))) = []"
  using redo_after_undo_and_edit_clears_redo
          [of twoEditsOneUndo spreadForm 5 4 "F_dialogue ''hi''" 6]
  by (simp add: twoEditsOneUndo_def startHistory_def initialHistory_def)

lemma reducer_keeps_volumes:
  "history_volumes_ok s \<Longrightarrow> action_volume_ok a \<Longrightarrow>
   history_volumes_ok (historyReducer spreadForm n s a)"
proof (cases a)
  case UNDO
  assume ok: "history_volumes_ok s"
  show ?thesis
  proof (cases "past s = []")
    case True
    with ok UNDO show ?thesis by simp
  next
    case False
    with ok UNDO show ?thesis
      by (auto simp: history_volumes_ok_def list_all_iff dest: in_set_butlastD)
  qed
next
  case REDO
  assume "history_volumes_ok s"
  with REDO show ?thesis
    by (auto simp: history_volumes_ok_def split: list.splits)
next
  case (SET p)
  assume "history_volumes_ok s" "action_volume_ok a"
  with SET show ?thesis
    by (auto simp: history_volumes_ok_def)
next
  case (UPDATE_FIELD fv)
  assume "history_volumes_ok s" "action_volume_ok a"
  with UPDATE_FIELD show ?thesis
    by (cases fv) (auto simp: history_volumes_ok_def volume_in_range_def)
qed

lemma app_dispatch_keeps_volumes:
  assumes "app_volumes_ok a" and "action_volume_ok action"
  shows "app_volumes_ok (app_dispatch a action)"
proof -
  let ?h = "historyReducer spreadForm (next_ref a) (hist a) action"
  from assms have h: "history_volumes_ok ?h"
    by (simp add: app_volumes_ok_def reducer_keeps_volumes)
  then have "volume_in_range (val (present ?h))"
    by (simp add: history_volumes_ok_def)
  with h assms(1) show ?thesis
    by (simp add: app_volumes_ok_def app_dispatch_def Let_def)
qed

lemma captured_volume_ok:
  "app_volumes_ok a \<Longrightarrow> volume_in_range (rendered a ! min age (length (rendered a) - 1))"
proof -
  assume ok: "app_volumes_ok a"
  then have "length (rendered a) > 0"
    by (simp add: app_volumes_ok_def)
  then have "min age (length (rendered a) - 1) < length (rendered a)"
    by arith
  then have "rendered a ! min age (length (rendered a) - 1) \<in> set (rendered a)"
    by (rule nth_mem)
  with ok show ?thesis by (auto simp: app_volumes_ok_def list_all_iff)
qed

lemma appEdit_keeps_volumes:
  assumes ok: "app_volumes_ok a" and ctl: "within_range_control e"
  shows "app_volumes_ok (appEdit a e)"
proof (cases e)
  case (MusicLoaded age result name)
  from captured_volume_ok [OF ok, of age] show ?thesis
    by (simp add: MusicLoaded Let_def volume_in_range_def
          app_dispatch_keeps_volumes [OF ok])
next
  case MusicRemoved
  from ok have "volume_in_range (formState_of a)"
    by (simp add: app_volumes_ok_def history_volumes_ok_def formState_of_def)
  then show ?thesis
    by (simp add: MusicRemoved volume_in_range_def app_dispatch_keeps_volumes [OF ok])
next
  case (VolumeSlid v)
  with ctl show ?thesis
    by (simp add: app_dispatch_keeps_volumes [OF ok])
next
  case (Transcribed transcript)
  then show ?thesis
    by (simp add: Let_def ok app_dispatch_keeps_volumes [OF ok])
qed (simp_all add: app_dispatch_keeps_volumes [OF ok])

lemma appRun_keeps_volumes:
  "app_volumes_ok a \<Longrightarrow> list_all within_range_control es \<Longrightarrow> app_volumes_ok (appRun a es)"
  by (induction es arbitrary: a) (simp_all add: appEdit_keeps_volumes)

text \<open>
  Claim C9. In every history state reached from the initial document through the edit
  operations of the application, with the volume control reporting values between its
  min 0 and max 1, the volume of the present document and of every document in past and
  future lies in [0,1].
\<close>

theorem volumes_stay_in_range:
  "list_all within_range_control edits \<Longrightarrow>
   history_volumes_ok (hist (appRun appStart edits))"
proof -
  assume c: "list_all within_range_control edits"
  have "app_volumes_ok appStart"
    by (simp add: app_volumes_ok_def appStart_def history_volumes_ok_def initialHistory_def
          volume_in_range_def initialForm_def)
  from appRun_keeps_volumes [OF this c] show ?thesis
    by (simp add: app_volumes_ok_def)
qed

theorem volumes_stay_in_range_witness:
  "list_all within_range_control sessionEdits
   \<and> history_volumes_ok (hist (appRun appStart sessionEdits))
   \<and> bgMusicVolume (val (present (hist (appRun appStart sessionEdits)))) = 1
   \<and> length (past (hist (appRun appStart sessionEdits))) = 5"
proof -
  have c: "list_all within_range_control sessionEdits"
    by (simp add: sessionEdits_def)
  have v: "bgMusicVolume (val (present (hist (appRun appStart sessionEdits)))) = 1
     \<and> length (past (hist (appRun appStart sessionEdits))) = 5"
    by (simp add: sessionEdits_def appStart_def app_dispatch_def formState_of_def
          initialHistory_def Let_def)
  from volumes_stay_in_range [OF c] c v show ?thesis by simp
qed

text \<open>
  Claim C10, as the code has it. The sequence of past, then present, then future (in the
  order the reducer keeps it: the document to redo next comes first) is the same before
  and after an undo, and before and after a redo: no document is lost, duplicated or
  moved.
\<close>

theorem undo_redo_keep_timeline:
  "timeline (historyReducer sp n s UNDO) = timeline s
   \<and> timeline (historyReducer sp n s REDO) = timeline s"
  by (auto simp: timeline_def split: list.splits)

text \<open>
  Claim C10 as stated fails: with future reversed, the sequence changes at an undo as
  soon as future holds a document already.
\<close>

theorem undo_changes_reversed_timeline:
  "timeline_rev_future (historyReducer spreadForm 4 twoEditsOneUndo UNDO)
     \<noteq> timeline_rev_future twoEditsOneUndo"
  by (simp add: timeline_rev_future_def twoEditsOneUndo_def startHistory_def
        initialHistory_def)

section \<open>Properties of the audio container encoder\<close>

lemma split16: "(w::nat) mod 256 + 256 * (w div 256 mod 256) = w mod 65536"
  using mod_mult2_eq [of w 256 256] by simp

lemma split32: "(w::nat) mod 256 + 256 * (w div 256 mod 256) + 65536 * (w div 65536 mod 256)
        + 16777216 * (w div 16777216 mod 256) = w mod 4294967296"
proof -
  have a: "w mod 65536 = w mod 256 + 256 * (w div 256 mod 256)"
    using mod_mult2_eq [of w 256 256] by simp
  have b: "w div 65536 mod 65536 = w div 65536 mod 256 + 256 * (w div 65536 div 256 mod 256)"
    using mod_mult2_eq [of "w div 65536" 256 256] by simp
  have c: "w div 65536 div 256 = w div 16777216"
    by (simp add: div_mult2_eq)
  have d: "w mod 4294967296 = w mod 65536 + 65536 * (w div 65536 mod 65536)"
    using mod_mult2_eq [of w 65536 65536] by simp
  show ?thesis unfolding d a b c by simp
qed

lemma le16_bytes:
  "unat (of_nat w :: byte) + 256 * unat (of_nat (w div 256) :: byte) = w mod 65536"
  using split16 [of w] by (simp add: unat_of_nat)

lemma le32_bytes:
  "unat (of_nat w :: byte) + 256 * unat (of_nat (w div 256) :: byte)
   + 65536 * unat (of_nat (w div 65536) :: byte)
   + 16777216 * unat (of_nat (w div 16777216) :: byte) = w mod 4294967296"
  using split32 [of w] by (simp add: unat_of_nat)

lemma le32_bytes_folded:
  "w mod 65536 + 65536 * unat (of_nat (w div 65536) :: byte)
   + 16777216 * unat (of_nat (w div 16777216) :: byte) = w mod 4294967296"
  using le32_bytes [of w] by (simp add: le16_bytes)

lemma round_double_exact: "\<bar>M\<bar> < 2 ^ 53 \<Longrightarrow> round_double M 0 = Finite M 0"
proof (cases "M = 0")
  case True
  then show ?thesis by (simp add: round_double_def)
next
  case False
  assume "\<bar>M\<bar> < 2 ^ 53"
  then have b: "bitlen \<bar>M\<bar> \<le> 53" by (simp add: bitlen_le_iff_power)
  have s: "sgn M * \<bar>M\<bar> = M" by (simp add: mult_sgn_abs)
  from False b s show ?thesis
    by (simp add: round_double_def Let_def max_def)
qed

lemma times_number_of_nat:
  "a * b < 2 ^ 53 \<Longrightarrow>
   times_number (number_of_nat a) (number_of_nat b) = number_of_nat (a * b)"
proof -
  assume "a * b < 2 ^ 53"
  then have "int (a * b) < 2 ^ 53" by (metis of_nat_less_numeral_power_cancel_iff)
  then have "\<bar>int a * int b\<bar> < 2 ^ 53" by simp
  from round_double_exact [OF this] show ?thesis by (simp add: number_of_nat_def)
qed

lemma plus_number_of_nat:
  "a + b < 2 ^ 53 \<Longrightarrow>
   plus_number (number_of_nat a) (number_of_nat b) = number_of_nat (a + b)"
proof -
  assume "a + b < 2 ^ 53"
  then have "int (a + b) < 2 ^ 53" by (metis of_nat_less_numeral_power_cancel_iff)
  then have "\<bar>int a + int b\<bar> < 2 ^ 53" by simp
  from round_double_exact [OF this] show ?thesis by (simp add: number_of_nat_def)
qed

lemma ToUint_of_nat: "ToUint bits (number_of_nat n) = n mod 2 ^ bits"
  by (simp add: number_of_nat_def truncate_number_def nat_mod_distrib nat_power_eq)

lemma ToUint_less: "ToUint bits x < 2 ^ bits"
  by (cases x) (simp_all add: nat_less_iff)

lemma ToUint32_mod: "ToUint 32 x mod 4294967296 = ToUint 32 x"
  using ToUint_less [of 32 x] by simp

lemma ToUint16_mod: "ToUint 16 x mod 65536 = ToUint 16 x"
  using ToUint_less [of 16 x] by simp

lemma addWavHeader_raw:
  "\<exists>out. addWavHeader samples R C = Some out
     \<and> length out = 44 + length samples
     \<and> drop 44 out = samples
     \<and> [out ! 0, out ! 1, out ! 2, out ! 3] = tag ''RIFF''
     \<and> [out ! 8, out ! 9, out ! 10, out ! 11] = tag ''WAVE''
     \<and> [out ! 12, out ! 13, out ! 14, out ! 15] = tag ''fmt ''
     \<and> [out ! 36, out ! 37, out ! 38, out ! 39] = tag ''data''
     \<and> field32 out 4 = ToUint 32 (plus_number (number_of_nat 36) (number_of_nat (length samples)))
     \<and> field32 out 16 = 16
     \<and> field16 out 20 = 1
     \<and> field16 out 22 = ToUint 16 C
     \<and> field32 out 24 = ToUint 32 R
     \<and> field32 out 28 = ToUint 32 (times_number (times_number R C) (number_of_nat 2))
     \<and> field16 out 32 = ToUint 16 (times_number C (number_of_nat 2))
     \<and> field16 out 34 = 16
     \<and> field32 out 40 = length samples mod 2 ^ 32"
  by (simp add: addWavHeader_def setUint32_def setUint16_def setUint8_def set_array_def Let_def
       tag_def field32_def field16_def nth_append le32_bytes_folded le16_bytes
       ToUint_of_nat ToUint32_mod ToUint16_mod
       numeral_2_eq_2 [symmetric] numeral_3_eq_3 [symmetric])

lemma bytes_at_4:
  "off + 4 \<le> length bs \<Longrightarrow>
   bytes_at bs off 4 = [bs ! off, bs ! (off + 1), bs ! (off + 2), bs ! (off + 3)]"
proof -
  assume l: "off + 4 \<le> length bs"
  have "length (bytes_at bs off 4) = 4" using l by (simp add: bytes_at_def)
  moreover have "\<And>i. i < 4 \<Longrightarrow> bytes_at bs off 4 ! i = bs ! (off + i)"
    using l by (simp add: bytes_at_def)
  ultimately show ?thesis
    by (simp add: list_eq_iff_nth_eq All_less_Suc numeral_eq_Suc)
qed

text \<open>
  Claim C5, as the code has it. For N sample bytes, a sample rate R and a channel count C
  that are non-negative integers with N + 36 and R * C * 2 below 2^32, the encoder throws
  nothing and returns N + 44 bytes: "RIFF" at 0, "WAVE" at 8, N + 36 in the 32-bit
  little-endian field at 4, 1 in the 16-bit field at 20, R * C * 2 in the 32-bit field at
  28, 16 in the 16-bit field at 34, N in the 32-bit field at 40, and the samples
  unchanged from offset 44 on.
\<close>

theorem addWavHeader_layout:
  assumes n: "length samples + 36 < 2 ^ 32" and r: "R * C * 2 < 2 ^ 32"
  shows "\<exists>out. addWavHeader samples (number_of_nat R) (number_of_nat C) = Some out
     \<and> length out = length samples + 44
     \<and> bytes_at out 0 4 = tag ''RIFF''
     \<and> bytes_at out 8 4 = tag ''WAVE''
     \<and> field32 out 4 = length samples + 36
     \<and> field16 out 20 = 1
     \<and> field32 out 28 = R * C * 2
     \<and> field16 out 34 = 16
     \<and> field32 out 40 = length samples
     \<and> drop 44 out = samples"
proof -
  from addWavHeader_raw [of samples "number_of_nat R" "number_of_nat C"]
  obtain out where out: "addWavHeader samples (number_of_nat R) (number_of_nat C) = Some out"
    and len: "length out = 44 + length samples"
    and payload: "drop 44 out = samples"
    and riff: "[out ! 0, out ! 1, out ! 2, out ! 3] = tag ''RIFF''"
    and wave: "[out ! 8, out ! 9, out ! 10, out ! 11] = tag ''WAVE''"
    and f4: "field32 out 4 =
               ToUint 32 (plus_number (number_of_nat 36) (number_of_nat (length samples)))"
    and f20: "field16 out 20 = 1"
    and f28: "field32 out 28 =
               ToUint 32 (times_number (times_number (number_of_nat R) (number_of_nat C))
                            (number_of_nat 2))"
    and f34: "field16 out 34 = 16"
    and f40: "field32 out 40 = length samples mod 2 ^ 32"
    by blast
  have b0: "bytes_at out 0 4 = tag ''RIFF''"
    using bytes_at_4 [of 0 out] len riff by (simp add: numeral_2_eq_2)
  have b8: "bytes_at out 8 4 = tag ''WAVE''"
    using bytes_at_4 [of 8 out] len wave by simp
  from n have n1: "length samples < 2 ^ 32" and n2: "36 + length samples < 2 ^ 32"
    by simp_all
  have small: "(2::nat) ^ 32 \<le> 2 ^ 53" by simp
  from n2 small have n3: "36 + length samples < 2 ^ 53" by (rule less_le_trans)
  from r small have r2: "R * C * 2 < 2 ^ 53" by (rule less_le_trans)
  have "R * C \<le> R * C * 2" by simp
  from this r2 have r1: "R * C < 2 ^ 53" by (rule le_less_trans)
  have s4: "ToUint 32 (plus_number (number_of_nat 36) (number_of_nat (length samples)))
              = length samples + 36"
    using n2 by (simp add: plus_number_of_nat [OF n3] ToUint_of_nat)
  have s28: "ToUint 32 (times_number (times_number (number_of_nat R) (number_of_nat C))
                          (number_of_nat 2)) = R * C * 2"
    using r by (simp only: times_number_of_nat [OF r1] times_number_of_nat [OF r2]
                  ToUint_of_nat mod_less)
  from n1 have s40: "length samples mod 2 ^ 32 = length samples" by simp
  show ?thesis
    using out len payload b0 b8 f4 f20 f28 f34 f40
    by (simp only: s4 s28 s40) simp
qed

theorem addWavHeader_layout_witness:
  "length [1, 2, 3, 4 :: byte] + 36 < 2 ^ 32 \<and> (24000 :: nat) * 1 * 2 < 2 ^ 32
   \<and> (\<exists>out. addWavHeader [1, 2, 3, 4] (number_of_nat 24000) (number_of_nat 1) = Some out
        \<and> length out = 48
        \<and> bytes_at out 0 4 = tag ''RIFF''
        \<and> field32 out 4 = 40
        \<and> field32 out 28 = 48000
        \<and> field32 out 40 = 4
        \<and> drop 44 out = [1, 2, 3, 4])"
proof -
  have n: "length [1, 2, 3, 4 :: byte] + 36 < 2 ^ 32" by simp
  have r: "(24000 :: nat) * 1 * 2 < 2 ^ 32" by simp
  from addWavHeader_layout [OF n r] n r show ?thesis by auto
qed

text \<open>
  Claim C5 as stated fails for large inputs: at the sample rate 2^31 with one channel
  the byte rate is 2^32, and the field at offset 28 holds 0.
\<close>

theorem byte_rate_wraps:
  "map_option byteRateField (addWavHeader [] (number_of_nat 2147483648) (number_of_nat 1))
     = Some 0
   \<and> map_option byteRateField (addWavHeader [] (number_of_nat 2147483648) (number_of_nat 1))
     \<noteq> Some (2147483648 * 1 * 2)"
proof -
  have a: "(2147483648 :: nat) * 1 < 2 ^ 53" by simp
  have b: "(2147483648 :: nat) * 1 * 2 < 2 ^ 53" by simp
  from addWavHeader_raw [of "[]" "number_of_nat 2147483648" "number_of_nat 1"]
  obtain out where
    "addWavHeader [] (number_of_nat 2147483648) (number_of_nat 1) = Some out"
    and "field32 out 28 =
           ToUint 32 (times_number (times_number (number_of_nat 2147483648) (number_of_nat 1))
                        (number_of_nat 2))"
    by blast
  moreover have "times_number (times_number (number_of_nat 2147483648) (number_of_nat 1))
                   (number_of_nat 2) = number_of_nat 4294967296"
    using times_number_of_nat [OF a] times_number_of_nat [OF b] by simp
  ultimately show ?thesis
    by (simp add: byteRateField_def ToUint_of_nat)
qed

section \<open>Properties of the pipeline\<close>

lemma poll_run:
  "\<forall>i. j \<le> i \<and> i < n \<longrightarrow> \<not> op_done (ops i) \<and> getVideosOperation env i (ops i) = Inr (ops (Suc i))
   \<Longrightarrow> op_done (ops n) \<Longrightarrow> j \<le> n \<Longrightarrow>
   pollOperation env j (ops j) st =
     Some (Inr (ops n),
           st\<lparr>status := (if j < n then ''Veo is thinking...'' else status st),
              effects := effects st @
                concat (map (\<lambda>i. [SetTimeout 5000, GetVideosOperationCall (ops i)]) [j..<n])\<rparr>)"
proof (induction "n - j" arbitrary: j st)
  case 0
  then have "j = n" by simp
  with 0 show ?case
    by (subst pollOperation.simps) simp
next
  case (Suc d)
  then have lt: "j < n" and d: "d = n - Suc j" by simp_all
  from Suc.prems lt have nd: "\<not> op_done (ops j)"
    and q: "getVideosOperation env j (ops j) = Inr (ops (Suc j))" by simp_all
  have rest: "\<forall>i. Suc j \<le> i \<and> i < n \<longrightarrow>
      \<not> op_done (ops i) \<and> getVideosOperation env i (ops i) = Inr (ops (Suc i))"
    using Suc.prems(1) by simp
  from lt have le: "Suc j \<le> n" by simp
  note ih = Suc.hyps(1) [OF d rest Suc.prems(2) le]
  show ?case
    by (subst pollOperation.simps)
       (simp add: nd q ih lt upt_conv_Cons setStatus_def emit_def)
qed

lemma poll_keeps_artifacts:
  assumes "pollOperation env k operation st = Some y"
  shows "audioUri (snd y) = audioUri st \<and> videoUri (snd y) = videoUri st
         \<and> loading (snd y) = loading st"
  using assms
proof (induction rule: pollOperation.raw_induct [rotated 1, consumes 1])
  case (1 poll env k operation st y)
  show ?case
  proof (cases "op_done operation")
    case True
    with 1(2) show ?thesis by auto
  next
    case False
    show ?thesis
    proof (cases "getVideosOperation env k operation")
      case (Inl e)
      with False 1(2) show ?thesis by (auto simp: emit_def)
    next
      case (Inr operation')
      with False 1(2) have "poll env (Suc k) operation'
          (setStatus ''Veo is thinking...''
            (emit (GetVideosOperationCall operation) (emit (SetTimeout 5000) st))) = Some y"
        by simp
      from 1(1) [OF this] show ?thesis by (simp add: setStatus_def emit_def)
    qed
  qed
qed

lemma audio_effects:
  "generateAudio env formState st = (r, st1) \<Longrightarrow>
   effects st1 = effects st @
     (if dialogue formState \<noteq> []
      then [GenerateContentCall (dialogue formState) (voiceName formState)] else [])
   \<and> videoUri st1 = videoUri st \<and> loading st1 = loading st"
  by (auto simp: generateAudio_def Let_def setStatus_def emit_def
           split: if_splits sum.splits option.splits)

lemma count_poll_waits:
  "length (filter (\<lambda>ev. ev = SetTimeout 5000)
     (concat (map (\<lambda>i. [SetTimeout 5000, GetVideosOperationCall (ops i)]) js))) = length js"
  by (induction js) auto

lemma polls_before_fetch:
  "takeWhile (\<lambda>ev. \<not> is_fetch ev)
     (concat (map (\<lambda>i. [SetTimeout 5000, GetVideosOperationCall (ops i)]) js)
      @ FetchCall u # rest)
   = concat (map (\<lambda>i. [SetTimeout 5000, GetVideosOperationCall (ops i)]) js)"
  by (induction js) auto

lemma generateAudio_published:
  assumes "dialogue formState \<noteq> []"
    and "generateContent env (dialogue formState) (voiceName formState) = Inr (Some audioData)"
    and "audioData \<noteq> []"
    and "atob env audioData = Inr binaryString"
  shows "\<exists>wavBytes. length wavBytes = 44 + length binaryString
     \<and> generateAudio env formState st =
         (None, (emit (GenerateContentCall (dialogue formState) (voiceName formState))
                   (setStatus ''Generating voiceover...'' st))
                \<lparr>audioUri := Some (createObjectURL env wavBytes)\<rparr>)"
proof -
  from addWavHeader_raw [of "map of_char binaryString" "number_of_nat 24000" "number_of_nat 1"]
  obtain wavBytes where
    "addWavHeader (map of_char binaryString) (number_of_nat 24000) (number_of_nat 1)
       = Some wavBytes"
    and "length wavBytes = 44 + length binaryString"
    by auto
  with assms show ?thesis
    by (auto simp: generateAudio_def)
qed

text \<open>
  Claim C6. When the video prompt is empty and there is no reference image, the call
  returns at once with the precondition message as status and without any effect: no
  remote call, no wait. The dialogue plays no part.
\<close>

theorem precondition_fails_fast:
  "videoPrompt formState = [] \<Longrightarrow> \<not> truthy (uploadedImage formState) \<Longrightarrow>
   \<exists>st'. generateScene env formState st = Some st'
     \<and> status st' = ''Please provide a video prompt or an image.''
     \<and> filter is_remote_call (run_effects st st') = []
     \<and> run_effects st st' = []"
  by (simp add: generateScene_def setStatus_def run_effects_def)

theorem precondition_fails_fast_witness:
  "videoPrompt dialogueOnlyForm = [] \<and> \<not> truthy (uploadedImage dialogueOnlyForm)
   \<and> dialogue dialogueOnlyForm \<noteq> []
   \<and> (\<exists>st'. generateScene pollTwiceServices dialogueOnlyForm idleApp = Some st'
         \<and> status st' = ''Please provide a video prompt or an image.''
         \<and> run_effects idleApp st' = [])"
  using precondition_fails_fast [of dialogueOnlyForm pollTwiceServices idleApp]
  by (auto simp: dialogueOnlyForm_def initialForm_def)

text \<open>
  Claim C1, as the code has it. Stage 1 runs inside the one \<open>try\<close> block of the
  function. When it throws, the run goes to the \<open>catch\<close> clause: the error is written
  to the console, the status becomes the error string, loading is cleared, and the video
  generation is not attempted.
\<close>

theorem audio_failure_ends_run:
  assumes pre: "videoPrompt formState \<noteq> [] \<or> truthy (uploadedImage formState)"
    and thrown: "generateAudio env formState (st\<lparr>loading := True, videoUri := None, audioUri := None\<rparr>)
                   = (Some e, st1)"
  shows "\<exists>st'. generateScene env formState st = Some st'
     \<and> filter is_video_attempt (run_effects st st') = []
     \<and> last (run_effects st st') = ConsoleError e
     \<and> status st' = ''Error: '' @ (if message e \<noteq> [] then message e else ''Unknown error occurred'')
     \<and> \<not> loading st'"
proof -
  from audio_effects [OF thrown]
  have eff: "effects st1 = effects st @
     (if dialogue formState \<noteq> []
      then [GenerateContentCall (dialogue formState) (voiceName formState)] else [])"
    by simp
  from pre thrown have
    "generateScene env formState st = Some (catchFinally (Some e, st1))"
    by (auto simp: generateScene_def tryBlock_def)
  then show ?thesis
    by (simp add: catchFinally_def setStatus_def emit_def run_effects_def eff)
qed

theorem audio_failure_ends_run_witness:
  "\<exists>st'. generateScene speechDownServices talkForm idleApp = Some st'
     \<and> filter is_video_attempt (run_effects idleApp st') = []
     \<and> last (run_effects idleApp st') = ConsoleError (Error ''speech service unavailable'')
     \<and> status st' = ''Error: speech service unavailable''
     \<and> \<not> loading st'"
proof -
  have pre: "videoPrompt talkForm \<noteq> [] \<or> truthy (uploadedImage talkForm)"
    by (simp add: talkForm_def)
  have thrown: "generateAudio speechDownServices talkForm
                  (idleApp\<lparr>loading := True, videoUri := None, audioUri := None\<rparr>)
          = (Some (Error ''speech service unavailable''),
             snd (generateAudio speechDownServices talkForm
                    (idleApp\<lparr>loading := True, videoUri := None, audioUri := None\<rparr>)))"
    by (simp add: generateAudio_def speechDownServices_def talkForm_def)
  from audio_failure_ends_run [OF pre thrown] show ?thesis by simp
qed

text \<open>
  Claim C1 as stated fails: with a speech service that throws, the run ends after the
  speech call and the console log. No video request is made.
\<close>

theorem speech_error_stops_before_video:
  "generateScene speechDownServices talkForm idleApp =
     Some \<lparr>status = ''Error: speech service unavailable'', loading = False,
           videoUri = None, audioUri = None,
           effects = [GenerateContentCall ''Hello world'' ''Kore'',
                      ConsoleError (Error ''speech service unavailable'')]\<rparr>"
  by (simp add: generateScene_def tryBlock_def generateAudio_def
       catchFinally_def setStatus_def emit_def speechDownServices_def
       pollTwiceServices_def talkForm_def initialForm_def idleApp_def Let_def)

text \<open>
  Claim C7, as the code has it. In a run where the submitted operation is pending, the
  status query answers not-done k times and then done with a video locator, and the
  fetch succeeds, the effects of the run are, in order: the speech call if there is a
  dialogue, the video request, then k + 1 times a wait of 5 seconds followed by a status
  query, then the fetch call. So exactly k + 1 waits of 5 seconds occur before the fetch
  call, three for two not-done answers and two for one, and the final status is the
  completion message.
\<close>

theorem waits_equal_status_queries:
  assumes pre: "videoPrompt formState \<noteq> [] \<or> truthy (uploadedImage formState)"
    and audio: "generateAudio env formState (st\<lparr>loading := True, videoUri := None, audioUri := None\<rparr>)
                   = (None, st1)"
    and submit: "generateVideos env (videoRequest formState) = Inr (ops 0)"
    and pending: "\<forall>i \<le> k. \<not> op_done (ops i)
                     \<and> getVideosOperation env i (ops i) = Inr (ops (Suc i))"
    and finished: "op_done (ops (Suc k))" "op_uri (ops (Suc k)) = Some uri" "uri \<noteq> []"
    and fetched: "fetch env (uri @ ''&key='' @ API_KEY env) = Inr vidBlob"
  shows "\<exists>st'. generateScene env formState st = Some st'
     \<and> run_effects st st' =
           (if dialogue formState \<noteq> []
            then [GenerateContentCall (dialogue formState) (voiceName formState)] else [])
           @ GenerateVideosCall (videoRequest formState)
           # concat (map (\<lambda>i. [SetTimeout 5000, GetVideosOperationCall (ops i)]) [0..<Suc k])
           @ [FetchCall (uri @ ''&key='' @ API_KEY env)]
     \<and> waits_before_fetch (run_effects st st') = k + 1
     \<and> last (run_effects st st') = FetchCall (uri @ ''&key='' @ API_KEY env)
     \<and> status st' = ''Scene generation complete!''
     \<and> videoUri st' = Some (createObjectURL env vidBlob)"
proof -
  let ?polls = "concat (map (\<lambda>i. [SetTimeout 5000, GetVideosOperationCall (ops i)]) [0..<Suc k])"
  let ?st2 = "emit (GenerateVideosCall (videoRequest formState))
                (setStatus ''Generating video with Veo (this may take a minute)...'' st1)"
  let ?st3 = "?st2\<lparr>status := ''Veo is thinking...'', effects := effects ?st2 @ ?polls\<rparr>"
  from pending have p: "\<forall>i. 0 \<le> i \<and> i < Suc k \<longrightarrow>
      \<not> op_done (ops i) \<and> getVideosOperation env i (ops i) = Inr (ops (Suc i))"
    by simp
  from poll_run [OF p finished(1), of ?st2]
  have polled: "pollOperation env 0 (ops 0) ?st2 = Some (Inr (ops (Suc k)), ?st3)"
    by simp
  from audio_effects [OF audio]
  have eff: "effects st1 = effects st @
     (if dialogue formState \<noteq> []
      then [GenerateContentCall (dialogue formState) (voiceName formState)] else [])"
    by simp
  have run: "generateScene env formState st
       = Some (catchFinally (fetchVideo env (ops (Suc k)) ?st3))"
    using pre audio submit polled
    by (auto simp: generateScene_def tryBlock_def)
  show ?thesis
    unfolding run
    using count_poll_waits [of ops "[0..<Suc k]"] fetched
    by (simp add: fetchVideo_def finished catchFinally_def setStatus_def emit_def
          run_effects_def eff waits_before_fetch_def Let_def polls_before_fetch del: upt_Suc)
qed

theorem waits_equal_status_queries_witness:
  "\<exists>st'. generateScene pollTwiceServices talkForm idleApp = Some st'
     \<and> run_effects idleApp st' =
           [GenerateContentCall ''Hello world'' ''Kore'',
            GenerateVideosCall (videoRequest talkForm),
            SetTimeout 5000, GetVideosOperationCall pendingOp,
            SetTimeout 5000, GetVideosOperationCall pendingOp,
            SetTimeout 5000, GetVideosOperationCall pendingOp,
            FetchCall ''https://video.example/1?alt=media&key=KEY'']
     \<and> waits_before_fetch (run_effects idleApp st') = 3
     \<and> status st' = ''Scene generation complete!''"
proof -
  have pre: "videoPrompt talkForm \<noteq> [] \<or> truthy (uploadedImage talkForm)"
    by (simp add: talkForm_def)
  from generateAudio_published
         [of talkForm pollTwiceServices "''UklGRg==''" "''RIFF''"
             "idleApp\<lparr>loading := True, videoUri := None, audioUri := None\<rparr>"]
  obtain st1 where audio: "generateAudio pollTwiceServices talkForm
        (idleApp\<lparr>loading := True, videoUri := None, audioUri := None\<rparr>) = (None, st1)"
    by (auto simp: talkForm_def pollTwiceServices_def)
  have submit: "generateVideos pollTwiceServices (videoRequest talkForm) = Inr (pollTwiceOps 0)"
    by (simp add: pollTwiceServices_def pollTwiceOps_def)
  have pending: "\<forall>i \<le> 2. \<not> op_done (pollTwiceOps i)
      \<and> getVideosOperation pollTwiceServices i (pollTwiceOps i) = Inr (pollTwiceOps (Suc i))"
    by (auto simp: pollTwiceServices_def pollTwiceOps_def pendingOp_def)
  have finished: "op_done (pollTwiceOps (Suc 2))"
    "op_uri (pollTwiceOps (Suc 2)) = Some ''https://video.example/1?alt=media''"
    "''https://video.example/1?alt=media'' \<noteq> []"
    by (simp_all add: pollTwiceOps_def doneOp_def)
  have fetched: "fetch pollTwiceServices
      (''https://video.example/1?alt=media'' @ ''&key='' @ API_KEY pollTwiceServices)
        = Inr [1, 2, 3]"
    by (simp add: pollTwiceServices_def)
  have ops: "[0..<3] = [0, 1, 2 :: nat]"
    by (simp add: numeral_3_eq_3)
  from waits_equal_status_queries [OF pre audio submit pending finished fetched]
  show ?thesis
    by (auto simp: ops talkForm_def initialForm_def pollTwiceOps_def pollTwiceServices_def
             simp del: upt_Suc)
qed

text \<open>
  Claim C7 as stated fails: with a pending submitted operation and a status query that
  answers not-done twice and then done, three waits of 5 seconds come before the fetch.
\<close>

theorem two_pending_answers_three_waits:
  "map_option (waits_before_fetch \<circ> effects) (generateScene pollTwiceServices promptForm idleApp)
     = Some 3"
  by (simp add: generateScene_def tryBlock_def generateAudio_def pollOperation.simps
       fetchVideo_def catchFinally_def setStatus_def emit_def waits_before_fetch_def
       pollTwiceServices_def promptForm_def initialForm_def idleApp_def pendingOp_def doneOp_def
       Let_def)

text \<open>
  Claim C8. In a run whose poll loop ends with an operation that has no video locator,
  the final status is the error string of "No video returned", no video reference is
  set, and the audio reference is the one stage 1 left: when stage 1 published an audio
  artifact, it is still there.
\<close>

theorem no_video_keeps_audio:
  assumes pre: "videoPrompt formState \<noteq> [] \<or> truthy (uploadedImage formState)"
    and audio: "generateAudio env formState (st\<lparr>loading := True, videoUri := None, audioUri := None\<rparr>)
                   = (None, st1)"
    and submit: "generateVideos env (videoRequest formState) = Inr operation"
    and polled: "pollOperation env 0 operation
                   (emit (GenerateVideosCall (videoRequest formState))
                      (setStatus ''Generating video with Veo (this may take a minute)...'' st1))
                   = Some (Inr operation', st3)"
    and nouri: "\<not> truthy (op_uri operation')"
  shows "\<exists>st'. generateScene env formState st = Some st'
     \<and> status st' = ''Error: No video returned''
     \<and> audioUri st' = audioUri st1
     \<and> videoUri st' = None
     \<and> \<not> loading st'"
proof -
  from poll_keeps_artifacts [OF polled]
  have keep: "audioUri st3 = audioUri st1" "videoUri st3 = videoUri st1"
    by (simp_all add: setStatus_def emit_def)
  from audio_effects [OF audio] have v: "videoUri st1 = None" by simp
  from pre audio submit polled nouri have
    "generateScene env formState st
       = Some (catchFinally (Some (Error ''No video returned''), st3))"
    by (auto simp: generateScene_def tryBlock_def fetchVideo_def)
  then show ?thesis
    by (simp add: catchFinally_def setStatus_def emit_def keep v)
qed

theorem no_video_keeps_audio_witness:
  "\<exists>st'. generateScene noVideoServices talkForm idleApp = Some st'
     \<and> status st' = ''Error: No video returned''
     \<and> audioUri st' = Some ''blob:audio''
     \<and> videoUri st' = None"
proof -
  let ?st0 = "idleApp\<lparr>loading := True, videoUri := None, audioUri := None\<rparr>"
  have pre: "videoPrompt talkForm \<noteq> [] \<or> truthy (uploadedImage talkForm)"
    by (simp add: talkForm_def)
  from generateAudio_published [of talkForm noVideoServices "''UklGRg==''" "''RIFF''" ?st0]
  obtain wavBytes where len: "length wavBytes = 48"
    and audio: "generateAudio noVideoServices talkForm ?st0 =
         (None, (emit (GenerateContentCall (dialogue talkForm) (voiceName talkForm))
                   (setStatus ''Generating voiceover...'' ?st0))
                \<lparr>audioUri := Some (createObjectURL noVideoServices wavBytes)\<rparr>)"
    by (auto simp: talkForm_def noVideoServices_def pollTwiceServices_def)
  let ?st1 = "(emit (GenerateContentCall (dialogue talkForm) (voiceName talkForm))
                   (setStatus ''Generating voiceover...'' ?st0))
                \<lparr>audioUri := Some (createObjectURL noVideoServices wavBytes)\<rparr>"
  let ?st2 = "emit (GenerateVideosCall (videoRequest talkForm))
                (setStatus ''Generating video with Veo (this may take a minute)...'' ?st1)"
  have submit: "generateVideos noVideoServices (videoRequest talkForm) = Inr (noVideoOps 0)"
    by (simp add: noVideoServices_def pollTwiceServices_def noVideoOps_def)
  have p: "\<forall>i. 0 \<le> i \<and> i < 1 \<longrightarrow> \<not> op_done (noVideoOps i)
      \<and> getVideosOperation noVideoServices i (noVideoOps i) = Inr (noVideoOps (Suc i))"
    by (simp add: noVideoServices_def pollTwiceServices_def noVideoOps_def pendingOp_def)
  have d: "op_done (noVideoOps 1)"
    by (simp add: noVideoOps_def emptyOp_def)
  from poll_run [OF p d, of ?st2]
  obtain st3 where polled: "pollOperation noVideoServices 0 (noVideoOps 0) ?st2
      = Some (Inr (noVideoOps 1), st3)"
    by auto
  have nouri: "\<not> truthy (op_uri (noVideoOps 1))"
    by (simp add: noVideoOps_def emptyOp_def)
  from no_video_keeps_audio [OF pre audio submit polled nouri] len
  show ?thesis
    by (auto simp: noVideoServices_def pollTwiceServices_def)
qed

end
